theory Spec2Isabelle
  imports Complex_Main "HOL-Library.Log_Nat"
begin

section \<open>PyDrought: the standardization and calibration core\<close>

text \<open>
  The development embeds \<^verbatim>\<open>calibration/distribution.py\<close>,
  \<^verbatim>\<open>calibration/calibration_utils.py\<close> and the two standardized indices of
  \<^verbatim>\<open>indices/meteorological.py\<close>.

  Conventions of the embedding.
  \<^item> An exception is a value \<^term>\<open>Inl e\<close> of a sum type.
  \<^item> In the fitting and calibration code a finite Python float is a \<^typ>\<open>real\<close> and NaN
    is \<^term>\<open>None\<close>; no statement there depends on rounding. In the weighted update,
    whose result is claimed to the last digit, binary64 rounding is written out.
  \<^item> numpy, pandas, scipy and scikit-learn are not part of the repository. Their
    numerical kernels (maximum-likelihood fitting, the simplex search, least squares) are
    parameters of the model, about which nothing is assumed.
  \<^item> A global name is looked up when the line that reads it runs. A module binds the
    names it imports and the names it defines; reading any other name that is not a
    builtin raises NameError.
\<close>

subsection \<open>Exceptions and values\<close>

datatype error =
    ValueError string
  | KeyError string
  | IndexError string
  | NameError string
  | LibraryError string

text \<open>Distribution parameters: the triple (shape, loc, scale).\<close>

type_synonym params = "real \<times> real \<times> real"

text \<open>
  The numerical kernels of \<^verbatim>\<open>scipy.stats\<close> that \<^verbatim>\<open>calibration/distribution.py\<close>
  calls: the three \<^verbatim>\<open>fit\<close> methods, which return a parameter triple or raise.
\<close>

record scipy =
  gamma_fit :: "real list \<Rightarrow> error + params"
  weibull_min_fit :: "real list \<Rightarrow> error + params"
  lognorm_fit :: "real list \<Rightarrow> error + params"

subsection \<open>calibration/distribution.py\<close>

text \<open>
  \<^verbatim>\<open>data = np.asarray(data); data = data[data > 0]\<close>: the boolean mask keeps the
  entries that compare greater than zero, in order; NaN compares false.
\<close>

fun positive :: "real option list \<Rightarrow> real list" where
  "positive [] = []"
| "positive (None # xs) = positive xs"
| "positive (Some v # xs) = (if v > 0 then v # positive xs else positive xs)"

definition fit_gamma_distribution :: "scipy \<Rightarrow> real option list \<Rightarrow> error + params" where
  "fit_gamma_distribution lib data = gamma_fit lib (positive data)"

definition fit_weibull_distribution :: "scipy \<Rightarrow> real option list \<Rightarrow> error + params" where
  "fit_weibull_distribution lib data = weibull_min_fit lib (positive data)"

definition fit_log_normal_distribution :: "scipy \<Rightarrow> real option list \<Rightarrow> error + params" where
  "fit_log_normal_distribution lib data = lognorm_fit lib (positive data)"

definition unsupported_message :: string where
  "unsupported_message =
     ''Unsupported distribution type. Choose 'gamma', 'weibull', or 'lognormal'.''"

definition fit_distribution :: "scipy \<Rightarrow> real option list \<Rightarrow> string \<Rightarrow> error + params" where
  "fit_distribution lib data distribution_type =
     (if distribution_type = ''gamma'' then fit_gamma_distribution lib data
      else if distribution_type = ''weibull'' then fit_weibull_distribution lib data
      else if distribution_type = ''lognormal'' then fit_log_normal_distribution lib data
      else Inl (ValueError unsupported_message))"

subsection \<open>indices/meteorological.py\<close>

text \<open>
  The module consists of a docstring and eleven function definitions; it has no import
  statement, and nothing in the repository assigns to its attributes. Besides the
  attributes that Python sets on every module (\<^verbatim>\<open>__name__\<close>, \<^verbatim>\<open>__doc__\<close> and
  the like), its global namespace therefore binds the names of its own functions and
  nothing else.
\<close>

definition module_globals :: "string list" where
  "module_globals =
     [''deciles_index'', ''percent_normal_precipitation'', ''rainfall_anomaly_index'',
      ''aridity_index'', ''aridity_anomaly_index'', ''hydrothermal_coefficient'',
      ''standardized_anomaly_index'', ''keetch_byram_index'',
      ''standardized_precipitation_index'',
      ''standardized_precipitation_evapotranspiration_index'',
      ''weighted_anomaly_standardized_precipitation'']"

text \<open>
  Reading a global name: the computation goes on when the module binds the name, and
  raises NameError otherwise. None of the names read below is a builtin.
\<close>

definition load_global :: "string \<Rightarrow> error + 'a \<Rightarrow> error + 'a" where
  "load_global name continue =
     (if name \<in> set module_globals then continue else Inl (NameError name))"

text \<open>A float as a quantile function returns it: NaN, an infinity, or a finite number.\<close>

datatype fval = NaN | NegInf | PosInf | Fin real

text \<open>
  What the calls through the names \<^verbatim>\<open>pd\<close>, \<^verbatim>\<open>np\<close>,
  \<^verbatim>\<open>fit_gamma_distribution\<close>, \<^verbatim>\<open>gamma\<close> and \<^verbatim>\<open>norm\<close> would compute in
  a namespace that bound them is a parameter of the model, about which nothing is
  assumed: \<^verbatim>\<open>pd.Series(x).rolling(window=w).sum()\<close>,
  \<^verbatim>\<open>np.array(x) - np.array(y)\<close>, \<^verbatim>\<open>fit_gamma_distribution(x)\<close>,
  \<^verbatim>\<open>gamma.cdf(x, *params)\<close> and \<^verbatim>\<open>norm.ppf(x)\<close>, each returning or raising.
\<close>

record denotations =
  rolling_sum :: "real option list \<Rightarrow> int \<Rightarrow> error + real option list"
  array_difference :: "real option list \<Rightarrow> real option list \<Rightarrow> error + real option list"
  fit_gamma :: "real option list \<Rightarrow> error + params"
  gamma_cdf :: "real option list \<Rightarrow> params \<Rightarrow> error + real option list"
  norm_ppf :: "real option list \<Rightarrow> error + fval list"

text \<open>\<^verbatim>\<open>aggregated.dropna()\<close>: the non-NaN entries, in order.\<close>

definition dropna :: "real option list \<Rightarrow> real option list" where
  "dropna xs = filter (\<lambda>x. x \<noteq> None) xs"

text \<open>
  The two functions, line by line, with every read of a global name explicit: line 193
  reads \<^verbatim>\<open>pd\<close>, line 196 \<^verbatim>\<open>fit_gamma_distribution\<close>, line 199
  \<^verbatim>\<open>gamma\<close>, line 200 \<^verbatim>\<open>norm\<close>; line 220 reads \<^verbatim>\<open>np\<close> before line
  222 reads \<^verbatim>\<open>pd\<close>.
\<close>

definition standardized_precipitation_index ::
  "denotations \<Rightarrow> real option list \<Rightarrow> int \<Rightarrow> params option \<Rightarrow> error + fval list" where
  "standardized_precipitation_index d precip scale distribution_params =
     load_global ''pd''
       (case rolling_sum d precip scale of
          Inl e \<Rightarrow> Inl e
        | Inr aggregated \<Rightarrow>
            (case (case distribution_params of
                     None \<Rightarrow>
                       load_global ''fit_gamma_distribution'' (fit_gamma d (dropna aggregated))
                   | Some p \<Rightarrow> Inr p) of
               Inl e \<Rightarrow> Inl e
             | Inr fitted \<Rightarrow>
                 load_global ''gamma''
                   (case gamma_cdf d aggregated fitted of
                      Inl e \<Rightarrow> Inl e
                    | Inr cdf_vals \<Rightarrow> load_global ''norm'' (norm_ppf d cdf_vals))))"


subsection \<open>The library plumbing used by the calibration routines\<close>

text \<open>
  numpy arithmetic on one-dimensional arrays: elementwise with NaN propagating, a
  one-element array broadcast, any other length mismatch a ValueError; a scalar times an
  array; the elementwise square; \<^verbatim>\<open>np.sum\<close>, which is NaN as soon as one entry is.
\<close>

fun nan_sub :: "real option \<Rightarrow> real option \<Rightarrow> real option" where
  "nan_sub (Some a) (Some b) = Some (a - b)"
| "nan_sub _ _ = None"

definition np_subtract :: "real option list \<Rightarrow> real option list \<Rightarrow> error + real option list" where
  "np_subtract xs ys =
     (if length xs = length ys then Inr (map2 nan_sub xs ys)
      else if length ys = 1 then Inr (map (\<lambda>x. nan_sub x (hd ys)) xs)
      else if length xs = 1 then Inr (map (\<lambda>y. nan_sub (hd xs) y) ys)
      else Inl (ValueError ''operands could not be broadcast together''))"

fun nan_add :: "real option \<Rightarrow> real option \<Rightarrow> real option" where
  "nan_add (Some a) (Some b) = Some (a + b)"
| "nan_add _ _ = None"

definition np_add :: "real option list \<Rightarrow> real option list \<Rightarrow> error + real option list" where
  "np_add xs ys =
     (if length xs = length ys then Inr (map2 nan_add xs ys)
      else if length ys = 1 then Inr (map (\<lambda>x. nan_add x (hd ys)) xs)
      else if length xs = 1 then Inr (map (\<lambda>y. nan_add (hd xs) y) ys)
      else Inl (ValueError ''operands could not be broadcast together''))"

definition np_scale :: "real \<Rightarrow> real option list \<Rightarrow> real option list" where
  "np_scale a xs = map (map_option (\<lambda>x. a * x)) xs"

definition np_square :: "real option list \<Rightarrow> real option list" where
  "np_square xs = map (map_option (\<lambda>x. x * x)) xs"

fun np_sum :: "real option list \<Rightarrow> real option" where
  "np_sum [] = Some 0"
| "np_sum (x # xs) = nan_add x (np_sum xs)"

text \<open>\<^verbatim>\<open>np.sum((modeled - observed)**2)\<close>, the objective of both calibrations.\<close>

definition squared_error :: "real option list \<Rightarrow> real option list \<Rightarrow> error + real option" where
  "squared_error modeled observed =
     (case np_subtract modeled observed of
        Inl e \<Rightarrow> Inl e
      | Inr residual \<Rightarrow> Inr (np_sum (np_square residual)))"

text \<open>
  \<^verbatim>\<open>scipy.optimize.minimize(objective, x0, method='Nelder-Mead')\<close>, reduced to the
  field \<^verbatim>\<open>result.x\<close> that the callers read. The objective may raise or return NaN;
  the search may raise.
\<close>

type_synonym minimizer = "(real list \<Rightarrow> error + real option) \<Rightarrow> real list \<Rightarrow> error + real list"

text \<open>A dictionary read with \<^verbatim>\<open>d[key]\<close> and with \<^verbatim>\<open>d.get(key, default)\<close>.\<close>

definition getitem :: "(string \<rightharpoonup> 'v) \<Rightarrow> string \<Rightarrow> error + 'v" where
  "getitem d key = (case d key of None \<Rightarrow> Inl (KeyError key) | Some v \<Rightarrow> Inr v)"

definition get_default :: "(string \<rightharpoonup> 'v) \<Rightarrow> string \<Rightarrow> 'v \<Rightarrow> 'v" where
  "get_default d key dflt = (case d key of None \<Rightarrow> dflt | Some v \<Rightarrow> v)"

subsection \<open>calibration/calibration_utils.py: the two calibrations\<close>

text \<open>\<^verbatim>\<open>a * precip + b * temp + c * soil_moisture\<close>.\<close>

definition pdsi_model ::
  "real \<Rightarrow> real \<Rightarrow> real \<Rightarrow> real option list \<Rightarrow> real option list \<Rightarrow> real option list
     \<Rightarrow> error + real option list" where
  "pdsi_model a b c precip temp soil_moisture =
     (case np_add (np_scale a precip) (np_scale b temp) of
        Inl e \<Rightarrow> Inl e
      | Inr ab \<Rightarrow> np_add ab (np_scale c soil_moisture))"

definition unpack_message :: string where
  "unpack_message = ''wrong number of values to unpack''"

text \<open>The nested function \<^verbatim>\<open>objective(params)\<close> of \<^verbatim>\<open>self_calibrated_pdsi\<close>.\<close>

definition pdsi_objective ::
  "real option list \<Rightarrow> real option list \<Rightarrow> real option list \<Rightarrow> real option list
     \<Rightarrow> real list \<Rightarrow> error + real option" where
  "pdsi_objective target_pdsi precip temp soil_moisture params =
     (case params of
        [a, b, c] \<Rightarrow>
          (case pdsi_model a b c precip temp soil_moisture of
             Inl e \<Rightarrow> Inl e
           | Inr model_pdsi \<Rightarrow> squared_error model_pdsi target_pdsi)
      | _ \<Rightarrow> Inl (ValueError unpack_message))"

definition self_calibrated_pdsi ::
  "minimizer \<Rightarrow> (string \<rightharpoonup> real option list) \<Rightarrow> (string \<rightharpoonup> real)
     \<Rightarrow> error + (real option list \<times> (string \<times> real) list)" where
  "self_calibrated_pdsi minimize data initial_parameters =
     (case getitem data ''target_pdsi'' of Inl e \<Rightarrow> Inl e | Inr target_pdsi \<Rightarrow>
     (case getitem data ''precip'' of Inl e \<Rightarrow> Inl e | Inr precip \<Rightarrow>
     (case getitem data ''temp'' of Inl e \<Rightarrow> Inl e | Inr temp \<Rightarrow>
     (case getitem data ''soil_moisture'' of Inl e \<Rightarrow> Inl e | Inr soil_moisture \<Rightarrow>
        (let init_params = [get_default initial_parameters ''a'' 1,
                            get_default initial_parameters ''b'' 1,
                            get_default initial_parameters ''c'' 1]
         in (case minimize (pdsi_objective target_pdsi precip temp soil_moisture) init_params of
               Inl e \<Rightarrow> Inl e
             | Inr calibrated_params \<Rightarrow>
                 (case calibrated_params of
                    [a, b, c] \<Rightarrow>
                      (case pdsi_model a b c precip temp soil_moisture of
                         Inl e \<Rightarrow> Inl e
                       | Inr calibrated_pdsi \<Rightarrow>
                           Inr (calibrated_pdsi, [(''a'', a), (''b'', b), (''c'', c)]))
                  | _ \<Rightarrow> Inl (ValueError unpack_message))))))))"

text \<open>
  The dictionary \<^verbatim>\<open>calibration_data\<close>, of which \<^verbatim>\<open>calibrate_index\<close> reads the
  keys \<^verbatim>\<open>'observed'\<close> and \<^verbatim>\<open>'input_data'\<close>; an absent key is \<^term>\<open>None\<close>.
  The two values have different types, so the dictionary is a record of its two entries.
\<close>

record 'd calibration_data =
  observed_entry :: "real option list option"
  input_data_entry :: "'d option"

text \<open>
  \<^verbatim>\<open>index_function(input_data, a=a, b=b)\<close> is a parameter: a function of the input
  data and the two coefficients that returns an array or raises, the same array whenever
  it is called with the same arguments. The keyword arguments \<^verbatim>\<open>**kwargs\<close> are
  accepted and never read. The nested function \<^verbatim>\<open>objective(params)\<close> comes first.
\<close>

definition calibrate_objective ::
  "('d \<Rightarrow> real \<Rightarrow> real \<Rightarrow> error + real option list) \<Rightarrow> 'd \<Rightarrow> real option list
     \<Rightarrow> real list \<Rightarrow> error + real option" where
  "calibrate_objective index_function input_data observed params =
     (case params of
        [a, b] \<Rightarrow>
          (case index_function input_data a b of
             Inl e \<Rightarrow> Inl e
           | Inr modeled \<Rightarrow> squared_error modeled observed)
      | _ \<Rightarrow> Inl (ValueError unpack_message))"

definition calibrate_index ::
  "minimizer \<Rightarrow> ('d \<Rightarrow> real \<Rightarrow> real \<Rightarrow> error + real option list) \<Rightarrow> 'd calibration_data \<Rightarrow> 'k
     \<Rightarrow> error + ((string \<times> real) list \<times> real option list)" where
  "calibrate_index minimize index_function calibration_data kwargs =
     (case observed_entry calibration_data of
        None \<Rightarrow> Inl (KeyError ''observed'')
      | Some observed \<Rightarrow>
     (case input_data_entry calibration_data of
        None \<Rightarrow> Inl (KeyError ''input_data'')
      | Some input_data \<Rightarrow>
        (case minimize (calibrate_objective index_function input_data observed) [1, 1] of
           Inl e \<Rightarrow> Inl e
         | Inr x \<Rightarrow>
             (case x of
                x0 # x1 # _ \<Rightarrow>
                  (let best_params = [(''a'', x0), (''b'', x1)]
                   in (case index_function input_data x0 x1 of
                         Inl e \<Rightarrow> Inl e
                       | Inr calibrated_index \<Rightarrow> Inr (best_params, calibrated_index)))
              | _ \<Rightarrow> Inl (IndexError ''index out of bounds'')))))"

subsection \<open>Binary64 arithmetic\<close>

text \<open>
  The weighted update multiplies and adds Python floats, and the specification gives its
  result to the last digit, so here rounding is written out. A finite binary64 value is
  the rational it denotes (the two zeros are one value, as they are for \<^verbatim>\<open>==\<close>).
  An operation returns the exact result rounded to the nearest representable value, ties
  to the even significand: the significand has 53 bits down to the exponent \<open>-1022\<close>,
  below which the spacing stays \<^verbatim>\<open>2**-1074\<close> (gradual underflow). A rounded result
  above the largest finite value \<^verbatim>\<open>(2**53 - 1) * 2**971\<close> overflows to an infinity,
  which is not a value of the model: \<open>finite_result\<close> says that this does not happen.
\<close>

type_synonym double = rat

text \<open>The binary exponent \<open>\<lfloor>log\<^sub>2 \<bar>q\<bar>\<rfloor>\<close> of a non-zero rational.\<close>

definition exponent :: "rat \<Rightarrow> int" where
  "exponent q =
     (let m = \<bar>q\<bar>
      in if 1 \<le> m then bitlen \<lfloor>m\<rfloor> - 1 else - bitlen (\<lceil>1 / m\<rceil> - 1))"

definition round_half_even :: "rat \<Rightarrow> int" where
  "round_half_even q =
     (let f = \<lfloor>q\<rfloor>; r = q - of_int f
      in if r < 1 / 2 then f
         else if 1 / 2 < r then f + 1
         else if even f then f else f + 1)"

definition fl :: "rat \<Rightarrow> double" where
  "fl q =
     (if q = 0 then 0
      else let ulp = 2 powi (max (exponent q) (- 1022) - 52)
           in of_int (round_half_even (q / ulp)) * ulp)"

definition max_double :: double where
  "max_double = (2 ^ 53 - 1) * 2 ^ 971"

definition finite_result :: "rat \<Rightarrow> bool" where
  "finite_result q \<longleftrightarrow> \<bar>fl q\<bar> \<le> max_double"

definition float_mul :: "double \<Rightarrow> double \<Rightarrow> double" where
  "float_mul a b = fl (a * b)"

definition float_add :: "double \<Rightarrow> double \<Rightarrow> double" where
  "float_add a b = fl (a + b)"

subsection \<open>calibration/calibration_utils.py: the weighted update\<close>

text \<open>The literals \<^verbatim>\<open>0.7\<close> and \<^verbatim>\<open>0.3\<close>: the binary64 values nearest to them.\<close>

definition weight_old :: double where
  "weight_old = fl (7 / 10)"

definition weight_new :: double where
  "weight_new = fl (3 / 10)"

text \<open>
  The loop \<^verbatim>\<open>for i, key in enumerate(old_params.keys())\<close>. The dictionary
  \<^verbatim>\<open>old_params\<close> is the list of its items in insertion order; \<open>i\<close> is the position
  of the next key; \<^verbatim>\<open>new_params[i]\<close> raises IndexError past the end of the array.
\<close>

fun update_loop :: "nat \<Rightarrow> (string \<times> double) list \<Rightarrow> double list \<Rightarrow> error + (string \<times> double) list" where
  "update_loop i [] new_params = Inr []"
| "update_loop i ((key, old) # rest) new_params =
     (if i < length new_params
      then (case update_loop (Suc i) rest new_params of
              Inl e \<Rightarrow> Inl e
            | Inr updated \<Rightarrow>
                Inr ((key, float_add (float_mul weight_old old)
                                     (float_mul weight_new (new_params ! i))) # updated))
      else Inl (IndexError ''index out of bounds''))"

text \<open>
  The dictionary \<^verbatim>\<open>new_data\<close> with its keys \<^verbatim>\<open>'input'\<close> and
  \<^verbatim>\<open>'observed'\<close>, and scikit-learn's \<^verbatim>\<open>LinearRegression().fit(X, y).coef_\<close> as a
  parameter, which may raise.
\<close>

record ('x, 'y) new_data =
  input_entry :: "'x option"
  observed_new_entry :: "'y option"

definition update_calibration_parameters ::
  "('x \<Rightarrow> 'y \<Rightarrow> error + double list) \<Rightarrow> (string \<times> double) list \<Rightarrow> ('x, 'y) new_data
     \<Rightarrow> error + (string \<times> double) list" where
  "update_calibration_parameters linear_regression_coef old_params new_data =
     (case input_entry new_data of
        None \<Rightarrow> Inl (KeyError ''input'')
      | Some X_new \<Rightarrow>
     (case observed_new_entry new_data of
        None \<Rightarrow> Inl (KeyError ''observed'')
      | Some y_new \<Rightarrow>
        (case linear_regression_coef X_new y_new of
           Inl e \<Rightarrow> Inl e
         | Inr new_params \<Rightarrow> update_loop 0 old_params new_params)))"

section \<open>Distribution fitting\<close>

text \<open>
  Claim C9. \<^const>\<open>fit_distribution\<close> with the family \<^verbatim>\<open>'gamma'\<close>,
  \<^verbatim>\<open>'weibull'\<close> or \<^verbatim>\<open>'lognormal'\<close> is the corresponding fitter; for every other
  family name it raises the ValueError that reports an unsupported distribution type,
  whatever the sample and whatever the library fitters would return: no fallback
  distribution is fitted.
\<close>

theorem fit_distribution_dispatch:
  "fit_distribution lib data ''gamma'' = fit_gamma_distribution lib data
   \<and> fit_distribution lib data ''weibull'' = fit_weibull_distribution lib data
   \<and> fit_distribution lib data ''lognormal'' = fit_log_normal_distribution lib data
   \<and> (distribution_type \<notin> {''gamma'', ''weibull'', ''lognormal''} \<longrightarrow>
        fit_distribution lib data distribution_type = Inl (ValueError unsupported_message))"
  by (simp add: fit_distribution_def)

theorem fit_distribution_dispatch_witness:
  "''foo'' \<notin> {''gamma'', ''weibull'', ''lognormal''}
   \<and> (\<forall>lib data. fit_distribution lib data ''foo'' = Inl (ValueError unsupported_message))
   \<and> (\<forall>lib. fit_distribution lib [Some 2, Some 0, Some 3] ''weibull'' = weibull_min_fit lib [2, 3])"
proof -
  have n: "''foo'' \<notin> {''gamma'', ''weibull'', ''lognormal''}" by simp
  have "fit_distribution lib data ''foo'' = Inl (ValueError unsupported_message)" for lib data
    using fit_distribution_dispatch [of lib data "''foo''"] n by blast
  moreover have "fit_distribution lib [Some 2, Some 0, Some 3] ''weibull'' = weibull_min_fit lib [2, 3]" for lib
    using fit_distribution_dispatch [of lib "[Some 2, Some 0, Some 3]" "''foo''"]
    by (simp add: fit_weibull_distribution_def)
  ultimately show ?thesis using n by blast
qed

lemma positive_filter:
  "positive data = [v. Some v \<leftarrow> data, 0 < v]"
  by (induction data rule: positive.induct) simp_all

text \<open>
  Claim C4, as the code has it. Each of the three fitters discards the entries that are
  not strictly positive (NaN included), hands the remaining values, in order, to the
  library's maximum-likelihood fit and returns that call's outcome unchanged: its
  parameters, or the exception it raises. The sample's size is never inspected, so the
  outcome on a sample is the outcome on any sample with the same positive entries.
\<close>

theorem fitters_delegate:
  "fit_gamma_distribution lib data = gamma_fit lib (positive data)
   \<and> fit_weibull_distribution lib data = weibull_min_fit lib (positive data)
   \<and> fit_log_normal_distribution lib data = lognorm_fit lib (positive data)
   \<and> positive data = [v. Some v \<leftarrow> data, 0 < v]
   \<and> (\<forall>v \<in> set (positive data). 0 < v \<and> Some v \<in> set data)
   \<and> (\<forall>other. positive other = positive data \<longrightarrow>
         fit_gamma_distribution lib other = fit_gamma_distribution lib data
         \<and> fit_weibull_distribution lib other = fit_weibull_distribution lib data
         \<and> fit_log_normal_distribution lib other = fit_log_normal_distribution lib data)"
  by (auto simp: fit_gamma_distribution_def fit_weibull_distribution_def
        fit_log_normal_distribution_def positive_filter split: option.splits)

theorem fitters_delegate_witness:
  "\<forall>lib. positive [Some 4, None, Some (- 1), Some 0, Some 7] = [4, 7]
     \<and> fit_gamma_distribution lib [Some 4, None, Some (- 1), Some 0, Some 7] = gamma_fit lib [4, 7]
     \<and> fit_gamma_distribution lib [Some 4, Some 7] =
         fit_gamma_distribution lib [Some 4, None, Some (- 1), Some 0, Some 7]"
proof
  fix lib
  let ?d = "[Some 4, None, Some (- 1), Some 0, Some (7::real)]"
  note t = fitters_delegate [of lib ?d]
  have p: "positive ?d = [4, 7]" using t by simp
  have g: "fit_gamma_distribution lib ?d = gamma_fit lib [4, 7]" using t p by simp
  have "positive [Some 4, Some 7] = positive ?d" by simp
  with t have "fit_gamma_distribution lib [Some 4, Some 7] = fit_gamma_distribution lib ?d"
    by blast
  with p g show "positive ?d = [4, 7]
     \<and> fit_gamma_distribution lib ?d = gamma_fit lib [4, 7]
     \<and> fit_gamma_distribution lib [Some 4, Some 7] = fit_gamma_distribution lib ?d"
    by blast
qed

text \<open>
  Claim C4 as stated fails: the sample below has exactly one positive value, and the
  fitters return parameters as soon as the library's fit returns some on the one-element
  sample \<open>[5]\<close>. No check of the code stands between the filter and the library call.
\<close>

theorem fitters_single_positive_counterexample:
  "\<forall>lib. length (positive [Some 5, Some 0, Some (- 3), None]) = 1
     \<and> fit_gamma_distribution (lib\<lparr>gamma_fit := \<lambda>sample. Inr (1, 0, sum_list sample)\<rparr>)
          [Some 5, Some 0, Some (- 3), None] = Inr (1, 0, 5)
     \<and> fit_weibull_distribution (lib\<lparr>weibull_min_fit := \<lambda>sample. Inr (1, 0, sum_list sample)\<rparr>)
          [Some 5, Some 0, Some (- 3), None] = Inr (1, 0, 5)
     \<and> fit_log_normal_distribution (lib\<lparr>lognorm_fit := \<lambda>sample. Inr (1, 0, sum_list sample)\<rparr>)
          [Some 5, Some 0, Some (- 3), None] = Inr (1, 0, 5)"
  by (simp add: fit_gamma_distribution_def fit_weibull_distribution_def
        fit_log_normal_distribution_def)

section \<open>The standardized indices\<close>

text \<open>
  Claim C1 says that the aggregated series computed inside
  \<^const>\<open>standardized_precipitation_index\<close> has the length of the input, a warm-up of
  \<open>scale - 1\<close> missing entries and window sums after it, and that the standardized
  output has the length of the input. The code does not get that far. Line 193, the first
  of the body, reads the name \<^verbatim>\<open>pd\<close>, which the module does not bind: the call on
  the series 1.0, 2.0, 3.0, 4.0 with scale 2 raises NameError, and so does every other
  call, so that neither an aggregated nor a standardized series is ever produced.
\<close>

theorem spi_aggregation_name_error:
  "standardized_precipitation_index d [Some 1, Some 2, Some 3, Some 4] 2 None
     = Inl (NameError ''pd'')
   \<and> standardized_precipitation_index d precip scale distribution_params
     = Inl (NameError ''pd'')"
  by (simp add: standardized_precipitation_index_def load_global_def module_globals_def)




section \<open>Calibration by simplex search\<close>

text \<open>
  Claim C10. Whenever \<^const>\<open>calibrate_index\<close> returns, whatever the index function
  and the keyword arguments, the returned dictionary has exactly the keys
  \<^verbatim>\<open>'a'\<close> and \<^verbatim>\<open>'b'\<close>, and the returned series is the index function
  evaluated on the input data at the two returned coefficients.
\<close>

theorem calibrate_index_consistent:
  "calibrate_index minimize index_function calibration_data kwargs = Inr (best_params, calibrated_index)
   \<Longrightarrow> map fst best_params = [''a'', ''b'']
       \<and> (\<exists>input_data a b.
             input_data_entry calibration_data = Some input_data
           \<and> map_of best_params ''a'' = Some a
           \<and> map_of best_params ''b'' = Some b
           \<and> index_function input_data a b = Inr calibrated_index)"
  by (auto simp: calibrate_index_def Let_def split: option.splits sum.splits list.splits)

theorem calibrate_index_consistent_witness:
  "calibrate_index (\<lambda>objective start. Inr [2, 3]) (\<lambda>xs a b. Inr (map (\<lambda>x. Some (a * x + b)) xs))
       \<lparr>observed_entry = Some [Some 3, Some 5, Some 7], input_data_entry = Some [0, 1, 2]\<rparr> ''verbose''
     = Inr ([(''a'', 2), (''b'', 3)], [Some 3, Some 5, Some 7])
   \<and> map fst [(''a'', 2 :: real), (''b'', 3)] = [''a'', ''b'']
   \<and> (\<exists>input_data a b.
         input_data_entry \<lparr>observed_entry = Some [Some 3, Some 5, Some 7],
                           input_data_entry = Some [0, 1, 2 :: real]\<rparr> = Some input_data
       \<and> map_of [(''a'', 2 :: real), (''b'', 3)] ''a'' = Some a
       \<and> map_of [(''a'', 2 :: real), (''b'', 3)] ''b'' = Some b
       \<and> (\<lambda>xs a b. Inr (map (\<lambda>x. Some (a * x + b)) xs)) input_data a b
           = (Inr [Some 3, Some 5, Some 7] :: error + real option list))"
proof -
  let ?m = "(\<lambda>objective start. Inr [2, 3]) :: minimizer"
  let ?f = "(\<lambda>xs a b. Inr (map (\<lambda>x. Some (a * x + b)) xs)) :: real list \<Rightarrow> real \<Rightarrow> real \<Rightarrow> error + real option list"
  let ?cd = "\<lparr>observed_entry = Some [Some 3, Some 5, Some 7], input_data_entry = Some [0, 1, 2 :: real]\<rparr>"
  have r: "calibrate_index ?m ?f ?cd ''verbose'' = Inr ([(''a'', 2), (''b'', 3)], [Some 3, Some 5, Some 7])"
    by (simp add: calibrate_index_def)
  from calibrate_index_consistent [OF r] r show ?thesis by blast
qed

text \<open>
  Claim C7, as the code has it. Neither calibration validates its input, and neither
  knows an invalid-input condition. Once the dictionary keys are present,
  \<^const>\<open>calibrate_index\<close> returns a result whenever the search returns at least two
  coefficients and the index function returns at them, and
  \<^const>\<open>self_calibrated_pdsi\<close> whenever the search returns three coefficients and the
  linear model evaluates at them: the lengths and contents of the observed and input
  series are never inspected.
\<close>

theorem calibration_unvalidated:
  "(observed_entry calibration_data = Some observed
      \<and> input_data_entry calibration_data = Some input_data
      \<and> minimize (calibrate_objective index_function input_data observed) [1, 1] = Inr (x0 # x1 # rest)
      \<and> index_function input_data x0 x1 = Inr calibrated_index
    \<longrightarrow> calibrate_index minimize index_function calibration_data kwargs
          = Inr ([(''a'', x0), (''b'', x1)], calibrated_index))
   \<and> (data ''target_pdsi'' = Some target_pdsi \<and> data ''precip'' = Some precip
      \<and> data ''temp'' = Some temp \<and> data ''soil_moisture'' = Some soil_moisture
      \<and> minimize (pdsi_objective target_pdsi precip temp soil_moisture)
           [get_default initial_parameters ''a'' 1, get_default initial_parameters ''b'' 1,
            get_default initial_parameters ''c'' 1] = Inr [a, b, c]
      \<and> pdsi_model a b c precip temp soil_moisture = Inr calibrated_pdsi
    \<longrightarrow> self_calibrated_pdsi minimize data initial_parameters
          = Inr (calibrated_pdsi, [(''a'', a), (''b'', b), (''c'', c)]))"
  by (simp add: calibrate_index_def self_calibrated_pdsi_def getitem_def)

theorem calibration_unvalidated_witness:
  "observed_entry \<lparr>observed_entry = Some [Some 3, Some 5, Some 7],
                   input_data_entry = Some [0, 1, 2 :: real]\<rparr> = Some [Some 3, Some 5, Some 7]
   \<and> input_data_entry \<lparr>observed_entry = Some [Some 3, Some 5, Some 7],
                       input_data_entry = Some [0, 1, 2 :: real]\<rparr> = Some [0, 1, 2]
   \<and> calibrate_index (\<lambda>objective start. Inr [2, 3])
         (\<lambda>xs a b. Inr (map (\<lambda>x. Some (a * x + b)) xs))
         \<lparr>observed_entry = Some [Some 3, Some 5, Some 7], input_data_entry = Some [0, 1, 2]\<rparr> ()
       = Inr ([(''a'', 2), (''b'', 3)], [Some 3, Some 5, Some 7])
   \<and> pdsi_model 1 2 (- 1) [Some 1, Some 0] [Some 2, Some 1] [Some 3, None] = Inr [Some 2, None]
   \<and> self_calibrated_pdsi (\<lambda>objective start. Inr [1, 2, - 1])
         [''target_pdsi'' \<mapsto> [Some 2, Some 2], ''precip'' \<mapsto> [Some 1, Some 0],
          ''temp'' \<mapsto> [Some 2, Some 1], ''soil_moisture'' \<mapsto> [Some 3, None]]
         [''a'' \<mapsto> 1 / 2]
       = Inr ([Some 2, None], [(''a'', 1), (''b'', 2), (''c'', - 1)])"
proof -
  let ?m = "(\<lambda>objective start. Inr [2, 3]) :: minimizer"
  let ?f = "(\<lambda>xs a b. Inr (map (\<lambda>x. Some (a * x + b)) xs))
              :: real list \<Rightarrow> real \<Rightarrow> real \<Rightarrow> error + real option list"
  let ?cd = "\<lparr>observed_entry = Some [Some 3, Some 5, Some 7],
               input_data_entry = Some [0, 1, 2 :: real]\<rparr>"
  let ?m3 = "(\<lambda>objective start. Inr [1, 2, - 1]) :: minimizer"
  let ?data = "[''target_pdsi'' \<mapsto> [Some 2, Some 2], ''precip'' \<mapsto> [Some 1, Some 0],
          ''temp'' \<mapsto> [Some 2, Some 1], ''soil_moisture'' \<mapsto> [Some 3, None :: real option]]"
  let ?ip = "[''a'' \<mapsto> 1 / 2 :: real]"
  have o: "observed_entry ?cd = Some [Some 3, Some 5, Some 7]"
    and i: "input_data_entry ?cd = Some [0, 1, 2]" by simp_all
  have s: "?m (calibrate_objective ?f [0, 1, 2] [Some 3, Some 5, Some 7]) [1, 1] = Inr (2 # 3 # [])"
    by simp
  have f: "?f [0, 1, 2] 2 3 = Inr [Some 3, Some 5, Some 7]" by simp
  note t = calibration_unvalidated [of ?cd "[Some 3, Some 5, Some 7]" "[0, 1, 2]" ?m ?f 2 3 "[]"
      "[Some 3, Some 5, Some 7]" "()"]
  have c: "calibrate_index ?m ?f ?cd ()
       = Inr ([(''a'', 2), (''b'', 3)], [Some 3, Some 5, Some 7])"
    by (rule t [THEN conjunct1, rule_format]) (intro conjI o i s f)
  have p: "pdsi_model 1 2 (- 1) [Some 1, Some 0] [Some 2, Some 1] [Some 3, None] = Inr [Some 2, None]"
    by (simp add: pdsi_model_def np_add_def np_scale_def)
  have d: "?data ''target_pdsi'' = Some [Some 2, Some 2] \<and> ?data ''precip'' = Some [Some 1, Some 0]
      \<and> ?data ''temp'' = Some [Some 2, Some 1] \<and> ?data ''soil_moisture'' = Some [Some 3, None]"
    by simp
  have s3: "?m3 (pdsi_objective [Some 2, Some 2] [Some 1, Some 0] [Some 2, Some 1] [Some 3, None])
           [get_default ?ip ''a'' 1, get_default ?ip ''b'' 1, get_default ?ip ''c'' 1]
         = Inr [1, 2, - 1]"
    by simp
  note t3 = calibration_unvalidated [where minimize = ?m3 and data = ?data
      and target_pdsi = "[Some 2, Some 2]" and precip = "[Some 1, Some 0]"
      and temp = "[Some 2, Some 1]" and soil_moisture = "[Some 3, None]"
      and initial_parameters = ?ip and a = 1 and b = 2 and c = "- 1"
      and calibrated_pdsi = "[Some 2, None]"]
  have q: "self_calibrated_pdsi ?m3 ?data ?ip
       = Inr ([Some 2, None], [(''a'', 1), (''b'', 2), (''c'', - 1)])"
    by (rule t3 [THEN conjunct2, rule_format]) (intro conjI d [THEN conjunct1]
        d [THEN conjunct2, THEN conjunct1] d [THEN conjunct2, THEN conjunct2, THEN conjunct1]
        d [THEN conjunct2, THEN conjunct2, THEN conjunct2] s3 p)
  show ?thesis by (intro conjI o i c p q)
qed

text \<open>
  Claim C7 as stated fails. With an empty observed series and empty input data the
  objective is the constant 0, the search runs, and whatever coefficients it returns the
  call returns them with an empty series; with an observed series of length 1 against
  three inputs numpy broadcasts and the call returns as well; with a model
  \<^verbatim>\<open>a * x / x + b\<close> on all-zero inputs, which is NaN everywhere, the call returns
  the all-NaN series; and \<^const>\<open>self_calibrated_pdsi\<close> returns on four empty series.
\<close>

theorem calibration_degenerate_counterexample:
  "\<forall>x0 x1 x2.
     calibrate_index (\<lambda>objective start. Inr [x0, x1]) (\<lambda>xs a b. Inr (map (\<lambda>x. Some (a * x + b)) xs))
         \<lparr>observed_entry = Some [], input_data_entry = Some []\<rparr> ()
       = Inr ([(''a'', x0), (''b'', x1)], [])
   \<and> calibrate_objective (\<lambda>xs a b. Inr (map (\<lambda>x. Some (a * x + b)) xs)) [] [] [x0, x1] = Inr (Some 0)
   \<and> calibrate_index (\<lambda>objective start. Inr [x0, x1]) (\<lambda>xs a b. Inr (map (\<lambda>x. Some (a * x + b)) xs))
         \<lparr>observed_entry = Some [Some 1], input_data_entry = Some [1, 2, 3]\<rparr> ()
       = Inr ([(''a'', x0), (''b'', x1)], [Some (x0 * 1 + x1), Some (x0 * 2 + x1), Some (x0 * 3 + x1)])
   \<and> calibrate_index (\<lambda>objective start. Inr [x0, x1])
         (\<lambda>xs a b. Inr (map (\<lambda>x. if x = 0 then None else Some (a * x / x + b)) xs))
         \<lparr>observed_entry = Some [Some 1, Some 2], input_data_entry = Some [0, 0]\<rparr> ()
       = Inr ([(''a'', x0), (''b'', x1)], [None, None])
   \<and> self_calibrated_pdsi (\<lambda>objective start. Inr [x0, x1, x2])
         [''target_pdsi'' \<mapsto> [], ''precip'' \<mapsto> [], ''temp'' \<mapsto> [], ''soil_moisture'' \<mapsto> []] Map.empty
       = Inr ([], [(''a'', x0), (''b'', x1), (''c'', x2)])"
  by (simp add: calibrate_index_def self_calibrated_pdsi_def getitem_def calibrate_objective_def
        squared_error_def np_subtract_def np_square_def pdsi_model_def np_add_def np_scale_def)

section \<open>Binary64 rounding\<close>

text \<open>
  Three facts that tie \<^const>\<open>fl\<close> to round-to-nearest: \<^const>\<open>exponent\<close> is the
  binary exponent; \<^const>\<open>fl\<close> moves a number by at most half a unit in the last place,
  the unit being that of the number's binade and never less than \<^verbatim>\<open>2**-1074\<close>; and
  it leaves unchanged every number \<open>m * 2\<^sup>k\<close> with \<open>\<bar>m\<bar> < 2\<^sup>5\<^sup>3\<close> and \<open>k \<ge> -1074\<close>,
  the subnormal numbers included.
\<close>

lemma exponent_ge1:
  fixes m :: rat
  assumes "1 \<le> m"
  shows "2 powi (bitlen \<lfloor>m\<rfloor> - 1) \<le> m \<and> m < 2 powi (bitlen \<lfloor>m\<rfloor> - 1 + 1)"
proof -
  let ?f = "\<lfloor>m\<rfloor>"
  have f: "0 < ?f" using assms by simp
  from bitlen_bounds [OF f] have lo: "2 ^ nat (bitlen ?f - 1) \<le> ?f" and hi: "?f < 2 ^ nat (bitlen ?f)"
    by simp_all
  have b1: "1 \<le> bitlen ?f" using f bitlen_eq_zero_iff [of ?f] bitlen_nonneg [of ?f] by linarith
  have "(2::rat) powi (bitlen ?f - 1) = 2 ^ nat (bitlen ?f - 1)"
    using b1 by (simp add: power_int_def)
  also have "\<dots> = of_int (2 ^ nat (bitlen ?f - 1))" by simp
  also have "\<dots> \<le> of_int ?f" using lo by (simp only: of_int_le_iff)
  also have "\<dots> \<le> m" by simp
  finally have L: "2 powi (bitlen ?f - 1) \<le> m" .
  have "?f + 1 \<le> 2 ^ nat (bitlen ?f)" using hi by simp
  then have "(of_int (?f + 1) :: rat) \<le> of_int (2 ^ nat (bitlen ?f))" by (simp only: of_int_le_iff)
  moreover have "m < of_int (?f + 1)" by linarith
  ultimately have "m < of_int (2 ^ nat (bitlen ?f))" by linarith
  also have "\<dots> = 2 powi (bitlen ?f - 1 + 1)" using b1 by (simp add: power_int_def)
  finally show ?thesis using L by simp
qed

lemma exponent_lt1:
  fixes m :: rat
  assumes "0 < m" "m < 1"
  shows "2 powi (- bitlen (\<lceil>1 / m\<rceil> - 1)) \<le> m \<and> m < 2 powi (- bitlen (\<lceil>1 / m\<rceil> - 1) + 1)"
proof -
  let ?r = "1 / m" let ?c = "\<lceil>?r\<rceil>" let ?k = "bitlen (?c - 1)"
  have r1: "1 < ?r" using assms by simp
  then have c2: "2 \<le> ?c" by (simp add: le_ceiling_iff)
  then have c0: "0 < ?c - 1" by simp
  from bitlen_bounds [OF c0] have lo: "2 ^ nat (?k - 1) \<le> ?c - 1" and hi: "?c - 1 < 2 ^ nat ?k"
    by simp_all
  have k1: "1 \<le> ?k" using c0 bitlen_eq_zero_iff [of "?c - 1"] bitlen_nonneg [of "?c - 1"] by linarith
  have "?r \<le> of_int ?c" by simp
  also have "of_int ?c \<le> (of_int (2 ^ nat ?k) :: rat)"
  proof -
    from hi have "?c \<le> 2 ^ nat ?k" by simp
    then show ?thesis by (simp only: of_int_le_iff)
  qed
  finally have rU: "?r \<le> 2 ^ nat ?k" by simp
  have "(of_int (2 ^ nat (?k - 1)) :: rat) \<le> of_int (?c - 1)" using lo by (simp only: of_int_le_iff)
  also have "of_int (?c - 1) < ?r" by linarith
  finally have rL: "2 ^ nat (?k - 1) < ?r" by simp
  have p: "(0::rat) < 2 ^ nat ?k" "(0::rat) < 2 ^ nat (?k - 1)" by simp_all
  from rU have "1 / 2 ^ nat ?k \<le> m"
    using assms(1) p by (simp add: field_simps)
  moreover have "(2::rat) powi (- ?k) = 1 / 2 ^ nat ?k"
    using k1 by (simp add: power_int_def field_simps)
  ultimately have L: "2 powi (- ?k) \<le> m" by simp
  from rL have "m < 1 / 2 ^ nat (?k - 1)"
    using assms(1) p by (simp add: field_simps)
  moreover have "(2::rat) powi (- ?k + 1) = 1 / 2 ^ nat (?k - 1)"
  proof -
    have "- ?k + 1 = - (?k - 1)" by simp
    then have "(2::rat) powi (- ?k + 1) = inverse (2 powi (?k - 1))"
      by (simp only: power_int_minus)
    also have "\<dots> = 1 / 2 ^ nat (?k - 1)" using k1 by (simp add: power_int_def field_simps)
    finally show ?thesis .
  qed
  ultimately show ?thesis using L by simp
qed

lemma exponent_bounds:
  assumes "q \<noteq> 0"
  shows "2 powi exponent q \<le> \<bar>q\<bar> \<and> \<bar>q\<bar> < 2 powi (exponent q + 1)"
proof (cases "1 \<le> \<bar>q\<bar>")
  case True
  then show ?thesis using exponent_ge1 [of "\<bar>q\<bar>"] by (simp add: exponent_def Let_def)
next
  case False
  then have "0 < \<bar>q\<bar>" "\<bar>q\<bar> < 1" using assms by simp_all
  then show ?thesis using exponent_lt1 [of "\<bar>q\<bar>"] False by (simp add: exponent_def Let_def)
qed

lemma round_half_even_error: "\<bar>of_int (round_half_even x) - x\<bar> \<le> 1 / 2"
proof -
  define r where "r = x - of_int \<lfloor>x\<rfloor>"
  have r: "0 \<le> r" "r < 1" unfolding r_def by linarith+
  have x: "x = of_int \<lfloor>x\<rfloor> + r" unfolding r_def by simp
  consider "r < 1 / 2" | "1 / 2 < r" | "r = 1 / 2" by linarith
  then show ?thesis
  proof cases
    case 1
    then have "round_half_even x = \<lfloor>x\<rfloor>"
      by (simp add: round_half_even_def Let_def r_def)
    then show ?thesis using 1 r x by simp
  next
    case 2
    then have "round_half_even x = \<lfloor>x\<rfloor> + 1"
      by (simp add: round_half_even_def Let_def r_def)
    then have "of_int (round_half_even x) - x = 1 - r"
      using x by simp
    then show ?thesis using 2 r by simp
  next
    case 3
    then have "round_half_even x = \<lfloor>x\<rfloor> \<or> round_half_even x = \<lfloor>x\<rfloor> + 1"
      by (simp add: round_half_even_def Let_def r_def)
    then have "of_int (round_half_even x) - x = - r \<or> of_int (round_half_even x) - x = 1 - r"
      using x by auto
    then show ?thesis using 3 by auto
  qed
qed

lemma fl_error:
  assumes "q \<noteq> 0"
  shows "\<bar>fl q - q\<bar> \<le> 2 powi (max (exponent q) (- 1022) - 53)"
proof -
  let ?E = "max (exponent q) (- 1022)"
  let ?u = "(2::rat) powi (?E - 52)"
  have u: "0 < ?u" by (simp add: zero_less_power_int)
  have "fl q - q = ?u * (of_int (round_half_even (q / ?u)) - q / ?u)"
    using assms u by (simp add: fl_def Let_def field_simps)
  then have "\<bar>fl q - q\<bar> = ?u * \<bar>of_int (round_half_even (q / ?u)) - q / ?u\<bar>"
    using u by (simp add: abs_mult)
  also have "\<dots> \<le> ?u * (1 / 2)"
    using u round_half_even_error [of "q / ?u"] by (intro mult_left_mono) simp_all
  also have "\<dots> = 2 powi (?E - 53)"
  proof -
    have "(2::rat) powi ((?E - 53) + 1) = 2 powi (?E - 53) * 2"
      by (rule power_int_add_1) simp
    moreover have "(?E - 53) + 1 = ?E - 52" by simp
    ultimately have "?u = 2 powi (?E - 53) * 2" by simp
    then show ?thesis by simp
  qed
  finally show ?thesis .
qed

lemma round_half_even_int: "round_half_even (of_int n) = n"
  by (simp add: round_half_even_def)

lemma fl_representable:
  assumes q: "q = of_int m * 2 powi k" and m: "\<bar>m\<bar> < 2 ^ 53" and k: "- 1074 \<le> k"
  shows "fl q = q"
proof (cases "q = 0")
  case True
  then show ?thesis by (simp add: fl_def)
next
  case False
  let ?e = "exponent q"
  let ?E = "max ?e (- 1022)"
  have "2 powi ?e \<le> \<bar>q\<bar>" using exponent_bounds [OF False] by simp
  also have "\<bar>q\<bar> = of_int \<bar>m\<bar> * 2 powi k"
    by (simp add: q abs_mult)
  also have "\<dots> < of_int (2 ^ 53) * 2 powi k"
    using m by (intro mult_strict_right_mono) (simp_all only: of_int_less_iff zero_less_power_int zero_less_numeral)
  also have "\<dots> = 2 powi (53 + k)"
    by (simp add: power_int_add)
  finally have "(2::rat) powi ?e < 2 powi (53 + k)" .
  then have "?e < 53 + k"
    by (metis power_int_increasing not_le_imp_less not_less one_le_numeral)
  with k have d: "0 \<le> k - (?E - 52)" by simp
  define d where "d = nat (k - (?E - 52))"
  define u where "u = (2::rat) powi (?E - 52)"
  have u0: "u \<noteq> 0" by (simp add: u_def)
  have kd: "k = (?E - 52) + int d" using d by (simp add: d_def)
  have "(2::rat) powi k = 2 powi ((?E - 52) + int d)" using kd by simp
  also have "\<dots> = u * 2 ^ d" by (simp add: power_int_add u_def)
  finally have pk: "(2::rat) powi k = u * 2 ^ d" .
  have qu: "q = of_int (m * 2 ^ d) * u"
    by (simp add: q pk)
  then have "q / u = of_int (m * 2 ^ d)" using u0 by simp
  then have r: "round_half_even (q / u) = m * 2 ^ d"
    by (simp only: round_half_even_int)
  have "fl q = of_int (round_half_even (q / u)) * u"
    using False by (simp add: fl_def Let_def u_def)
  also have "\<dots> = q" unfolding r using qu by simp
  finally show ?thesis .
qed

lemma max_double_ge: "4 \<le> max_double"
proof -
  have "(1::rat) \<le> 2 ^ 971" by (rule one_le_power) simp
  then have "(2 ^ 53 - 1) * (1::rat) \<le> (2 ^ 53 - 1) * 2 ^ 971"
    by (intro mult_left_mono) simp_all
  moreover have "(4::rat) \<le> (2 ^ 53 - 1) * 1" by simp
  ultimately show ?thesis unfolding max_double_def by (rule order_trans [rotated])
qed

lemma finite_result_small: "\<bar>fl q\<bar> \<le> 4 \<Longrightarrow> finite_result q"
  using max_double_ge by (simp add: finite_result_def)

lemma fl_examples:
  "fl (7 / 10) = 3152519739159347 / 4503599627370496"
  "fl (3 / 10) = 5404319552844595 / 18014398509481984"
  "fl (13 / 10) = 5854679515581645 / 4503599627370496"
  by code_simp+

lemma exponent_unique:
  assumes "2 powi e \<le> \<bar>q\<bar>" and "\<bar>q\<bar> < 2 powi (e + 1)"
  shows "exponent q = e"
proof -
  have p: "(0::rat) < 2 powi e" by (rule zero_less_power_int) simp
  have "q \<noteq> 0"
  proof
    assume "q = 0"
    with assms(1) have "2 powi e \<le> (0::rat)" by simp
    with p show False by linarith
  qed
  from exponent_bounds [OF this] have
    b1: "2 powi exponent q \<le> \<bar>q\<bar>" and b2: "\<bar>q\<bar> < 2 powi (exponent q + 1)" by simp_all
  from assms(1) b2 have "(2::rat) powi e < 2 powi (exponent q + 1)" by (rule le_less_trans)
  then have "e < exponent q + 1"
    by (metis power_int_increasing not_le_imp_less not_less one_le_numeral)
  moreover from b1 assms(2) have "(2::rat) powi exponent q < 2 powi (e + 1)" by (rule le_less_trans)
  then have "exponent q < e + 1"
    by (metis power_int_increasing not_le_imp_less not_less one_le_numeral)
  ultimately show ?thesis by simp
qed

lemma fl_smallest_subnormal:
  "fl (fl (7 / 10) * 2 powi (- 1074)) = 2 powi (- 1074)"
proof -
  define u :: rat where "u = 2 powi (- 1074)"
  define w :: rat where "w = 3152519739159347 / 4503599627370496"
  have u: "0 < u" unfolding u_def by (rule zero_less_power_int) simp
  have w: "1 / 2 \<le> w" "w < 1" by (simp_all add: w_def)
  have fw: "fl (7 / 10) = w" by (simp add: fl_examples w_def)
  have "(2::rat) powi (- 1075 + 1) = 2 powi (- 1075) * 2"
    by (rule power_int_add_1) simp
  moreover have "(- 1075 + 1 :: int) = - 1074" by simp
  ultimately have up: "(2::rat) powi (- 1075 + 1) = u" and half: "(2::rat) powi (- 1075) = u / 2"
    unfolding u_def by simp_all
  have q0: "w * u \<noteq> 0" using u w by simp
  have a: "\<bar>w * u\<bar> = w * u" using u w by (simp add: abs_mult)
  have "u / 2 \<le> w * u" using u w by (simp add: field_simps)
  then have lo: "2 powi (- 1075) \<le> \<bar>w * u\<bar>" unfolding half a .
  have "w * u < u" using u w by simp
  then have hi: "\<bar>w * u\<bar> < 2 powi (- 1075 + 1)" unfolding up a .
  from lo hi have e: "exponent (w * u) = - 1075" by (rule exponent_unique)
  have m: "max (exponent (w * u)) (- 1022) - 52 = - 1074" unfolding e by simp
  have "round_half_even (3152519739159347 / 4503599627370496) = 1" by code_simp
  then have r: "round_half_even w = 1" by (simp only: w_def)
  have "fl (w * u) = of_int (round_half_even (w * u / u)) * u"
    using q0 unfolding fl_def Let_def m u_def [symmetric] by (simp only: if_False)
  also have "w * u / u = w" using u by simp
  finally have "fl (w * u) = u" by (simp add: r)
  then show ?thesis unfolding fw u_def .
qed

lemma smallest_subnormal_le: "(2::rat) powi (- 1074) \<le> 4"
proof -
  have "(2::rat) powi (- 1074) \<le> 2 powi 2"
    by (rule power_int_increasing) simp_all
  then show ?thesis by simp
qed

section \<open>The weighted update\<close>

lemma update_loop_enough:
  "i + length old_params \<le> length new_params \<Longrightarrow>
     update_loop i old_params new_params =
       Inr (map (\<lambda>(j, key, old).
                   (key, float_add (float_mul weight_old old) (float_mul weight_new (new_params ! j))))
                (enumerate i old_params))"
proof (induction old_params arbitrary: i)
  case Nil
  then show ?case by simp
next
  case (Cons item rest)
  obtain key old where item: "item = (key, old)" by (cases item)
  from Cons.prems have "i < length new_params" "Suc i + length rest \<le> length new_params"
    by simp_all
  with Cons.IH [of "Suc i"] show ?case by (simp add: item)
qed

lemma update_loop_short:
  "length new_params < i + length old_params \<Longrightarrow> i \<le> length new_params \<Longrightarrow>
     update_loop i old_params new_params = Inl (IndexError ''index out of bounds'')"
proof (induction old_params arbitrary: i)
  case Nil
  then show ?case by simp
next
  case (Cons item rest)
  obtain key old where item: "item = (key, old)" by (cases item)
  show ?case
  proof (cases "i < length new_params")
    case True
    with Cons.prems have "length new_params < Suc i + length rest" "Suc i \<le> length new_params"
      by simp_all
    with Cons.IH [of "Suc i"] True show ?thesis by (simp add: item)
  next
    case False
    then show ?thesis by (simp add: item)
  qed
qed

lemma update_loop_keys:
  "update_loop i old_params new_params = Inr updated \<Longrightarrow> map fst updated = map fst old_params"
proof (induction old_params arbitrary: i updated)
  case Nil
  then show ?case by simp
next
  case (Cons item rest)
  obtain key old where item: "item = (key, old)" by (cases item)
  from Cons.prems obtain tail where
    t: "update_loop (Suc i) rest new_params = Inr tail" and "map fst updated = key # map fst tail"
    by (auto simp: item split: if_splits sum.splits)
  with Cons.IH [OF t] show ?case by (simp add: item)
qed

text \<open>
  Claim C6, as the code has it. The new coefficients are an array, taken by position.
  When it is at least as long as the old dictionary, and all values are finite floats, the
  loop returns the old keys in their order, and the value of the key at position \<open>k\<close> is
  the binary64 result of \<^verbatim>\<open>0.7 * old + 0.3 * new[k]\<close>: the two literals, the two
  products and the sum each rounded to the nearest double, with gradual underflow. The
  statement covers every case in which neither product nor the sum overflows, and then
  the value is finite.
\<close>

theorem update_loop_values:
  assumes "length old_params \<le> length new_params"
    and "\<forall>k < length old_params.
           finite_result (fl (7 / 10) * snd (old_params ! k))
         \<and> finite_result (fl (3 / 10) * new_params ! k)
         \<and> finite_result (fl (fl (7 / 10) * snd (old_params ! k)) + fl (fl (3 / 10) * new_params ! k))"
  shows "\<exists>updated. update_loop 0 old_params new_params = Inr updated
       \<and> map fst updated = map fst old_params
       \<and> (\<forall>k < length old_params.
             snd (updated ! k) =
               fl (fl (fl (7 / 10) * snd (old_params ! k)) + fl (fl (3 / 10) * new_params ! k))
           \<and> \<bar>snd (updated ! k)\<bar> \<le> max_double)"
proof -
  let ?f = "\<lambda>(j, key, old).
              (key, float_add (float_mul weight_old old) (float_mul weight_new (new_params ! j)))"
  let ?u = "map ?f (enumerate 0 old_params)"
  have u: "update_loop 0 old_params new_params = Inr ?u"
    using assms(1) by (simp add: update_loop_enough)
  have keys: "map fst ?u = map fst old_params"
    by (rule nth_equalityI) (simp_all add: nth_enumerate_eq split_beta)
  have vals: "snd (?u ! k) =
      fl (fl (fl (7 / 10) * snd (old_params ! k)) + fl (fl (3 / 10) * new_params ! k))"
    if "k < length old_params" for k
    using that
    by (simp add: nth_enumerate_eq split_beta float_add_def float_mul_def
          weight_old_def weight_new_def)
  have fin: "\<bar>snd (?u ! k)\<bar> \<le> max_double" if "k < length old_params" for k
    using assms(2) that unfolding vals [OF that] by (simp add: finite_result_def)
  from u keys vals fin show ?thesis by blast
qed

theorem update_loop_values_witness:
  "length [(''a'', 1), (''b'', 3 / 2 :: rat)] \<le> length [2, 2, 9 :: rat]
   \<and> finite_result (fl (7 / 10) * 1) \<and> finite_result (fl (3 / 10) * 2)
   \<and> finite_result (fl (fl (7 / 10) * 1) + fl (fl (3 / 10) * 2))
   \<and> finite_result (fl (7 / 10) * (3 / 2))
   \<and> finite_result (fl (fl (7 / 10) * (3 / 2)) + fl (fl (3 / 10) * 2))
   \<and> update_loop 0 [(''a'', 1), (''b'', 3 / 2)] [2, 2, 9]
       = Inr [(''a'', 5854679515581644 / 4503599627370496),
              (''b'', 3715469692580659 / 2251799813685248)]
   \<and> finite_result (fl (7 / 10) * 2 powi (- 1074)) \<and> finite_result (fl (3 / 10) * 0)
   \<and> finite_result (fl (fl (7 / 10) * 2 powi (- 1074)) + fl (fl (3 / 10) * 0))
   \<and> update_loop 0 [(''a'', 2 powi (- 1074))] [0] = Inr [(''a'', 2 powi (- 1074))]"
proof -
  let ?old = "[(''a'', 1), (''b'', 3 / 2 :: rat)]" and ?new = "[2, 2, 9 :: rat]"
  have h: "length ?old \<le> length ?new" by simp
  have b: "\<bar>fl (fl (7 / 10) * 1)\<bar> \<le> 4" "\<bar>fl (fl (3 / 10) * 2)\<bar> \<le> 4"
    "\<bar>fl (fl (fl (7 / 10) * 1) + fl (fl (3 / 10) * 2))\<bar> \<le> 4"
    "\<bar>fl (fl (7 / 10) * (3 / 2))\<bar> \<le> 4"
    "\<bar>fl (fl (fl (7 / 10) * (3 / 2)) + fl (fl (3 / 10) * 2))\<bar> \<le> 4"
    by code_simp+
  have f0: "finite_result (fl (7 / 10) * 1) \<and> finite_result (fl (3 / 10) * 2)
      \<and> finite_result (fl (fl (7 / 10) * 1) + fl (fl (3 / 10) * 2))"
    by (intro conjI finite_result_small b)
  have f1: "finite_result (fl (7 / 10) * (3 / 2)) \<and> finite_result (fl (3 / 10) * 2)
      \<and> finite_result (fl (fl (7 / 10) * (3 / 2)) + fl (fl (3 / 10) * 2))"
    by (intro conjI finite_result_small b)
  have r: "\<forall>k < length ?old.
           finite_result (fl (7 / 10) * snd (?old ! k))
         \<and> finite_result (fl (3 / 10) * ?new ! k)
         \<and> finite_result (fl (fl (7 / 10) * snd (?old ! k)) + fl (fl (3 / 10) * ?new ! k))"
    using f0 f1 by (simp add: less_Suc_eq numeral_2_eq_2)
  from update_loop_values [OF h r] obtain updated where
    u: "update_loop 0 ?old ?new = Inr updated"
    and k: "map fst updated = map fst ?old"
    and v: "\<forall>k < length ?old.
             snd (updated ! k) =
               fl (fl (fl (7 / 10) * snd (?old ! k)) + fl (fl (3 / 10) * ?new ! k))
           \<and> \<bar>snd (updated ! k)\<bar> \<le> max_double"
    by blast
  have v0: "snd (updated ! 0) = 5854679515581644 / 4503599627370496"
  proof -
    from v have "snd (updated ! 0) = fl (fl (fl (7 / 10) * 1) + fl (fl (3 / 10) * 2))" by simp
    also have "\<dots> = 5854679515581644 / 4503599627370496" by code_simp
    finally show ?thesis .
  qed
  have v1: "snd (updated ! 1) = 3715469692580659 / 2251799813685248"
  proof -
    from v have "snd (updated ! 1) = fl (fl (fl (7 / 10) * (3 / 2)) + fl (fl (3 / 10) * 2))" by simp
    also have "\<dots> = 3715469692580659 / 2251799813685248" by code_simp
    finally show ?thesis .
  qed
  from k have l: "length updated = 2" and f: "fst (updated ! 0) = ''a''" "fst (updated ! 1) = ''b''"
    by (auto simp: map_eq_Cons_conv)
  have "updated = [(''a'', 5854679515581644 / 4503599627370496),
              (''b'', 3715469692580659 / 2251799813685248)]"
    by (rule nth_equalityI) (use l f v0 v1 in \<open>auto simp: less_Suc_eq prod_eq_iff numeral_2_eq_2\<close>)
  with u have first: "update_loop 0 ?old ?new
       = Inr [(''a'', 5854679515581644 / 4503599627370496),
              (''b'', 3715469692580659 / 2251799813685248)]" by simp
  define s :: rat where "s = 2 powi (- 1074)"
  have s4: "\<bar>s\<bar> \<le> 4" using smallest_subnormal_le by (simp add: s_def zero_less_power_int)
  have p1: "fl (fl (7 / 10) * s) = s" unfolding s_def by (rule fl_smallest_subnormal)
  have p2: "fl 0 = 0" by (simp add: fl_def)
  have "s = of_int 1 * 2 powi (- 1074)" by (simp add: s_def)
  then have p3: "fl s = s" by (rule fl_representable) simp_all
  have g: "finite_result (fl (7 / 10) * s) \<and> finite_result (fl (3 / 10) * 0)
      \<and> finite_result (fl (fl (7 / 10) * s) + fl (fl (3 / 10) * 0))"
    using s4 by (auto intro!: finite_result_small simp: p1 p2 p3)
  have h2: "length [(''a'', s)] \<le> length [0 :: rat]" by simp
  have r2: "\<forall>k < length [(''a'', s)].
           finite_result (fl (7 / 10) * snd ([(''a'', s)] ! k))
         \<and> finite_result (fl (3 / 10) * [0] ! k)
         \<and> finite_result (fl (fl (7 / 10) * snd ([(''a'', s)] ! k)) + fl (fl (3 / 10) * [0] ! k))"
    using g by simp
  from update_loop_values [OF h2 r2] obtain updated2 where
    u2: "update_loop 0 [(''a'', s)] [0] = Inr updated2"
    and k2: "map fst updated2 = map fst [(''a'', s)]"
    and v2: "\<forall>k < length [(''a'', s)].
             snd (updated2 ! k) =
               fl (fl (fl (7 / 10) * snd ([(''a'', s)] ! k)) + fl (fl (3 / 10) * [0] ! k))
           \<and> \<bar>snd (updated2 ! k)\<bar> \<le> max_double"
    by blast
  from v2 have "snd (updated2 ! 0) = fl (fl (fl (7 / 10) * s) + fl (fl (3 / 10) * 0))" by simp
  then have "snd (updated2 ! 0) = s" by (simp add: p1 p2 p3)
  moreover from k2 have "length updated2 = 1" "fst (updated2 ! 0) = ''a''"
    by (auto simp: map_eq_Cons_conv)
  ultimately have "updated2 = [(''a'', s)]"
    by (cases updated2) (auto simp: prod_eq_iff)
  with u2 have second: "update_loop 0 [(''a'', s)] [0] = Inr [(''a'', s)]" by simp
  from h f0 f1 first g second show ?thesis unfolding s_def by blast
qed

text \<open>
  Claim C6 as stated fails at the specification's own example: for the old value 1.0
  and the new value 2.0 the loop returns 1.2999999999999998, the double just below the
  double 1.3, and not the rational 13/10 either.
\<close>

theorem update_loop_not_exact_counterexample:
  "update_loop 0 [(''a'', 1)] [2] = Inr [(''a'', 5854679515581644 / 4503599627370496)]
   \<and> (5854679515581644 / 4503599627370496 :: rat) \<noteq> 7 / 10 * 1 + 3 / 10 * 2
   \<and> (5854679515581644 / 4503599627370496 :: rat) \<noteq> fl (13 / 10)
   \<and> update_calibration_parameters (\<lambda>X y. Inr [2]) [(''a'', 1)]
        \<lparr>input_entry = Some [[0], [1 :: rat]], observed_new_entry = Some [0, 2 :: rat]\<rparr>
       = Inr [(''a'', 5854679515581644 / 4503599627370496)]"
proof -
  have u: "update_loop 0 [(''a'', 1)] [2] = Inr [(''a'', 5854679515581644 / 4503599627370496)]"
    by code_simp
  have n1: "(5854679515581644 / 4503599627370496 :: rat) \<noteq> 7 / 10 * 1 + 3 / 10 * 2"
    by simp
  have n2: "(5854679515581644 / 4503599627370496 :: rat) \<noteq> fl (13 / 10)"
    by (simp add: fl_examples)
  have c: "update_calibration_parameters (\<lambda>X y. Inr [2]) [(''a'', 1)]
        \<lparr>input_entry = Some [[0], [1 :: rat]], observed_new_entry = Some [0, 2 :: rat]\<rparr>
       = Inr [(''a'', 5854679515581644 / 4503599627370496)]"
    by (simp del: update_loop.simps add: update_calibration_parameters_def u)
  from u n1 n2 c show ?thesis by blast
qed

text \<open>
  Claim C8, as the code has it. \<^const>\<open>update_calibration_parameters\<close> compares no
  keys: the new coefficients are the regression's array. When the array is at least as
  long as the old dictionary the call returns an updated dictionary with the old keys,
  ignoring the surplus coefficients; when it is shorter the call fails with the
  IndexError of the array read.
\<close>

theorem update_positional:
  assumes "linear_regression_coef X_new y_new = Inr new_params"
  shows "(length old_params \<le> length new_params \<longrightarrow>
            (\<exists>updated.
               update_calibration_parameters linear_regression_coef old_params
                 \<lparr>input_entry = Some X_new, observed_new_entry = Some y_new\<rparr> = Inr updated
               \<and> map fst updated = map fst old_params))
       \<and> (length new_params < length old_params \<longrightarrow>
            update_calibration_parameters linear_regression_coef old_params
              \<lparr>input_entry = Some X_new, observed_new_entry = Some y_new\<rparr>
              = Inl (IndexError ''index out of bounds''))"
proof (intro conjI impI)
  assume "length old_params \<le> length new_params"
  then have "update_loop 0 old_params new_params =
       Inr (map (\<lambda>(j, key, old).
                   (key, float_add (float_mul weight_old old) (float_mul weight_new (new_params ! j))))
                (enumerate 0 old_params))"
    by (simp add: update_loop_enough)
  then show "\<exists>updated.
               update_calibration_parameters linear_regression_coef old_params
                 \<lparr>input_entry = Some X_new, observed_new_entry = Some y_new\<rparr> = Inr updated
               \<and> map fst updated = map fst old_params"
    using assms update_loop_keys [of 0 old_params new_params]
    by (simp add: update_calibration_parameters_def)
next
  assume "length new_params < length old_params"
  then have "update_loop 0 old_params new_params = Inl (IndexError ''index out of bounds'')"
    by (simp add: update_loop_short)
  then show "update_calibration_parameters linear_regression_coef old_params
              \<lparr>input_entry = Some X_new, observed_new_entry = Some y_new\<rparr>
              = Inl (IndexError ''index out of bounds'')"
    using assms by (simp add: update_calibration_parameters_def)
qed

theorem update_positional_witness:
  "(\<lambda>X y. Inr [2, 5 :: rat]) [[0, 1], [1, 0], [1, 1 :: rat]] [5, 2, 7 :: rat] = Inr [2, 5]
   \<and> length [(''slope'', 1 :: rat), (''offset'', 4)] \<le> length [2, 5 :: rat]
   \<and> (\<exists>updated.
         update_calibration_parameters (\<lambda>X y. Inr [2, 5]) [(''slope'', 1), (''offset'', 4)]
           \<lparr>input_entry = Some [[0, 1], [1, 0], [1, 1 :: rat]], observed_new_entry = Some [5, 2, 7 :: rat]\<rparr>
           = Inr updated
         \<and> map fst updated = [''slope'', ''offset''])
   \<and> length [2, 5 :: rat] < length [(''a'', 1 :: rat), (''b'', 1), (''c'', 1)]
   \<and> update_calibration_parameters (\<lambda>X y. Inr [2, 5]) [(''a'', 1), (''b'', 1), (''c'', 1)]
        \<lparr>input_entry = Some [[0, 1], [1, 0], [1, 1 :: rat]], observed_new_entry = Some [5, 2, 7 :: rat]\<rparr>
       = Inl (IndexError ''index out of bounds'')"
proof -
  let ?reg = "\<lambda>(X :: rat list list) (y :: rat list). (Inr [2, 5 :: rat] :: error + double list)"
  let ?X = "[[0, 1], [1, 0], [1, 1 :: rat]]" and ?y = "[5, 2, 7 :: rat]"
  have r: "?reg ?X ?y = Inr [2, 5]" by simp
  have l1: "length [(''slope'', 1 :: rat), (''offset'', 4)] \<le> length [2, 5 :: rat]" by simp
  have l2: "length [2, 5 :: rat] < length [(''a'', 1 :: rat), (''b'', 1), (''c'', 1)]" by simp
  from update_positional [of ?reg ?X ?y "[2, 5]" "[(''slope'', 1), (''offset'', 4)]"] r l1
  have a: "\<exists>updated.
         update_calibration_parameters ?reg [(''slope'', 1), (''offset'', 4)]
           \<lparr>input_entry = Some ?X, observed_new_entry = Some ?y\<rparr> = Inr updated
         \<and> map fst updated = [''slope'', ''offset'']"
    by simp
  from update_positional [of ?reg ?X ?y "[2, 5]" "[(''a'', 1), (''b'', 1), (''c'', 1)]"] r l2
  have b: "update_calibration_parameters ?reg [(''a'', 1), (''b'', 1), (''c'', 1)]
        \<lparr>input_entry = Some ?X, observed_new_entry = Some ?y\<rparr>
       = Inl (IndexError ''index out of bounds'')"
    by simp
  from r l1 a l2 b show ?thesis by blast
qed

text \<open>
  Claim C8 as stated fails: one old key against two new coefficients is a count
  mismatch, and the call returns an updated dictionary.
\<close>

theorem update_mismatch_counterexample:
  "update_calibration_parameters (\<lambda>X y. Inr [2, 5]) [(''a'', 1)]
     \<lparr>input_entry = Some [[0, 1], [1, 0], [1, 1 :: rat]], observed_new_entry = Some [5, 2, 7 :: rat]\<rparr>
     = Inr [(''a'', 5854679515581644 / 4503599627370496)]"
proof -
  have "update_loop 0 [(''a'', 1)] [2, 5] = Inr [(''a'', 5854679515581644 / 4503599627370496)]"
    by code_simp
  then show ?thesis
    by (simp del: update_loop.simps add: update_calibration_parameters_def)
qed

end
